theory Spec2Isabelle
  imports
    Complex_Main
    "HOL-Library.Multiset"
    "HOL-Library.Sublist"
    "HOL-Library.Char_ord"
    "HOL-Library.List_Lexorder"
    "HOL-Library.Product_Lexorder"
    "HOL-Library.Log_Nat"
begin

section \<open>Values\<close>

text \<open>
  The storefront of \<^verbatim>\<open>app.js\<close> keeps a catalog of lessons, a cart with one entry per
  reserved seat, and a checkout form. Lessons arrive as JSON objects with the fields
  \<^verbatim>\<open>subject\<close>, \<^verbatim>\<open>location\<close>, \<^verbatim>\<open>price\<close>, \<^verbatim>\<open>spaces\<close> and \<^verbatim>\<open>image\<close>.

  A text field holds a string or is absent (\<^verbatim>\<open>undefined\<close>, modelled by \<open>None\<close>). Strings
  are lists of code units below 256, the Latin-1 characters; the relational operators
  compare them code unit by code unit.

  A price is any number of JavaScript, a double-precision value, or is absent. The spaces
  of a lesson are a count of seats, which the code only compares with 0 and changes by 1:
  an integer, in the range where this arithmetic is exact, or absent, or \<^verbatim>\<open>NaN\<close>, which is
  what the arithmetic makes of an absent field.
\<close>

subsection \<open>Numbers\<close>

text \<open>
  A number is \<^verbatim>\<open>NaN\<close>, an infinity, or a finite binary64 value, held as the rational it
  denotes. The two zeros are one value here: the code never divides by a number or
  inspects its sign bit, and every operation it uses (truthiness, comparison, addition,
  \<^verbatim>\<open>String\<close>) treats them alike.
\<close>

datatype number = NotANumber | NegInfinity | Finite rat | PosInfinity

definition pow2 :: "int \<Rightarrow> rat" where
  "pow2 e = (if 0 \<le> e then 2 ^ nat e else 1 / 2 ^ nat (- e))"

definition pow10 :: "int \<Rightarrow> rat" where
  "pow10 e = (if 0 \<le> e then 10 ^ nat e else 1 / 10 ^ nat (- e))"

text \<open>The binary exponent of a positive rational \<open>a\<close>: the \<open>e\<close> with \<open>2^e \<le> a < 2^(e+1)\<close>.\<close>

definition binexp :: "rat \<Rightarrow> int" where
  "binexp a = (if 1 \<le> a then bitlen \<lfloor>a\<rfloor> - 1 else - bitlen (\<lceil>1 / a\<rceil> - 1))"

definition round_half_even :: "rat \<Rightarrow> int" where
  "round_half_even t =
    (let f = \<lfloor>t\<rfloor>; r = t - of_int f
     in if r < 1 / 2 then f else if 1 / 2 < r then f + 1 else if even f then f else f + 1)"

text \<open>
  The number a real result is rounded to: the nearest value with 53 significant bits and
  an exponent of at least \<open>-1022\<close> (below it the values are subnormal, with spacing
  \<open>2^-1074\<close>), ties going to the even significand, and an infinity from \<open>2^1024\<close> on.
\<close>

definition fl :: "rat \<Rightarrow> number" where
  "fl x =
    (if x = 0 then Finite 0
     else
       let a = \<bar>x\<bar>;
           e = max (binexp a) (- 1022);
           ulp = pow2 (e - 52);
           y = of_int (round_half_even (a / ulp)) * ulp
       in if pow2 1024 \<le> y then (if 0 < x then PosInfinity else NegInfinity)
          else Finite (if 0 < x then y else - y))"

text \<open>\<^verbatim>\<open>a + b\<close>, \<^verbatim>\<open>-a\<close> and \<^verbatim>\<open>a - b\<close> on numbers.\<close>

fun js_add :: "number \<Rightarrow> number \<Rightarrow> number" where
  "js_add NotANumber b = NotANumber"
| "js_add a NotANumber = NotANumber"
| "js_add PosInfinity NegInfinity = NotANumber"
| "js_add NegInfinity PosInfinity = NotANumber"
| "js_add PosInfinity b = PosInfinity"
| "js_add a PosInfinity = PosInfinity"
| "js_add NegInfinity b = NegInfinity"
| "js_add a NegInfinity = NegInfinity"
| "js_add (Finite a) (Finite b) = fl (a + b)"

fun js_neg :: "number \<Rightarrow> number" where
  "js_neg NotANumber = NotANumber"
| "js_neg PosInfinity = NegInfinity"
| "js_neg NegInfinity = PosInfinity"
| "js_neg (Finite a) = Finite (- a)"

definition js_sub :: "number \<Rightarrow> number \<Rightarrow> number" where
  "js_sub a b = js_add a (js_neg b)"

text \<open>\<^verbatim>\<open>a < b\<close> on numbers: false whenever one of them is \<^verbatim>\<open>NaN\<close>.\<close>

fun num_lt :: "number \<Rightarrow> number \<Rightarrow> bool" where
  "num_lt NotANumber b = False"
| "num_lt a NotANumber = False"
| "num_lt (Finite a) (Finite b) = (a < b)"
| "num_lt a NegInfinity = False"
| "num_lt NegInfinity b = True"
| "num_lt PosInfinity b = False"
| "num_lt a PosInfinity = True"

subsection \<open>Numbers as text\<close>

definition digit_char :: "nat \<Rightarrow> char" where
  "digit_char d = char_of (48 + d)"

function decimal :: "nat \<Rightarrow> string" where
  "decimal n = (if n < 10 then [digit_char n] else decimal (n div 10) @ [digit_char (n mod 10)])"
  by pat_completeness auto
termination
  by (relation "measure (\<lambda>n. n)") auto

declare decimal.simps [simp del]

text \<open>
  \<^verbatim>\<open>String(x)\<close> for a positive finite \<open>x\<close> takes integers \<open>n\<close>, \<open>k\<close> and \<open>s\<close> with
  \<open>10^(k-1) \<le> s < 10^k\<close> such that \<open>s * 10^(n-k)\<close> rounds to \<open>x\<close>, with \<open>k\<close> as small as
  possible, and among several such \<open>s\<close> the one for which \<open>s * 10^(n-k)\<close> is closest to \<open>x\<close>,
  the even one of two. Such a decimal lies next to \<open>x\<close>: for the decimal exponent \<open>n0\<close> of
  \<open>x\<close> (\<open>10^(n0-1) \<le> x < 10^n0\<close>) it has \<open>n = n0\<close>, or \<open>n = n0 + 1\<close> when it is the power of
  ten above \<open>x\<close>, and \<open>s\<close> is \<open>x / 10^(n-k)\<close> rounded down or up. Seventeen digits always
  suffice for a binary64 value.
\<close>

definition decexp :: "rat \<Rightarrow> int" where
  "decexp a = (if 1 \<le> a then int (floorlog 10 (nat \<lfloor>a\<rfloor>))
     else 1 - int (floorlog 10 (nat (\<lceil>1 / a\<rceil> - 1))))"

definition candidates :: "rat \<Rightarrow> nat \<Rightarrow> int \<Rightarrow> (int \<times> int) list" where
  "candidates x k n0 =
    [(s, n). n \<leftarrow> [n0, n0 + 1],
             s \<leftarrow> [\<lfloor>x / pow10 (n - int k)\<rfloor>, \<lfloor>x / pow10 (n - int k)\<rfloor> + 1],
             pow10 (int k - 1) \<le> of_int s \<and> of_int s < pow10 (int k) \<and>
             fl (of_int s * pow10 (n - int k)) = Finite x]"

definition closer :: "rat \<Rightarrow> nat \<Rightarrow> (int \<times> int) \<Rightarrow> (int \<times> int) \<Rightarrow> (int \<times> int)" where
  "closer x k c d =
    (let dc = \<bar>of_int (fst c) * pow10 (snd c - int k) - x\<bar>;
         dd = \<bar>of_int (fst d) * pow10 (snd d - int k) - x\<bar>
     in if dd < dc \<or> (dd = dc \<and> even (fst d) \<and> odd (fst c)) then d else c)"

text \<open>The search for \<open>(s, k, n)\<close>, from \<open>k\<close> digits on, for at most \<open>fuel\<close> lengths; the
  last equation is never reached from 17 lengths on a binary64 value.\<close>

fun shortest :: "rat \<Rightarrow> int \<Rightarrow> nat \<Rightarrow> nat \<Rightarrow> int \<times> nat \<times> int" where
  "shortest x n0 k 0 = (\<lfloor>x / pow10 (n0 - int k)\<rfloor>, k, n0)"
| "shortest x n0 k (Suc fuel) =
    (case candidates x k n0 of
       [] \<Rightarrow> shortest x n0 (Suc k) fuel
     | c # cs \<Rightarrow> (case foldl (closer x k) c cs of (s, n) \<Rightarrow> (s, k, n)))"

definition positiveToString :: "rat \<Rightarrow> string" where
  "positiveToString x =
    (case shortest x (decexp x) 1 17 of (s, k, n) \<Rightarrow>
       let ds = decimal (nat s) in
       if - 5 \<le> n \<and> n \<le> 21 then
         (if int k \<le> n then ds @ replicate (nat (n - int k)) CHR ''0''
          else if 0 < n then take (nat n) ds @ ''.'' @ drop (nat n) ds
          else ''0.'' @ replicate (nat (- n)) CHR ''0'' @ ds)
       else
         let es = (if n < 0 then ''-'' else ''+'') @ decimal (nat \<bar>n - 1\<bar>)
         in if k = 1 then ds @ ''e'' @ es
            else take 1 ds @ ''.'' @ drop 1 ds @ ''e'' @ es)"

fun numberToString :: "number \<Rightarrow> string" where
  "numberToString NotANumber = ''NaN''"
| "numberToString PosInfinity = ''Infinity''"
| "numberToString NegInfinity = ''-Infinity''"
| "numberToString (Finite x) =
    (if x = 0 then ''0'' else if x < 0 then ''-'' @ positiveToString (- x) else positiveToString x)"

subsection \<open>Fields\<close>

text \<open>Truthiness of a price: \<^verbatim>\<open>undefined\<close>, \<^verbatim>\<open>NaN\<close> and \<^verbatim>\<open>0\<close> are falsy.\<close>

fun truthy_number :: "number option \<Rightarrow> bool" where
  "truthy_number None = False"
| "truthy_number (Some NotANumber) = False"
| "truthy_number (Some (Finite x)) = (x \<noteq> 0)"
| "truthy_number (Some PosInfinity) = True"
| "truthy_number (Some NegInfinity) = True"

text \<open>\<^verbatim>\<open>String(v || "")\<close> and \<^verbatim>\<open>v || 0\<close> on a price.\<close>

definition numberText :: "number option \<Rightarrow> string" where
  "numberText v = (if truthy_number v then numberToString (the v) else [])"

definition numberOr0 :: "number option \<Rightarrow> number" where
  "numberOr0 v = (if truthy_number v then the v else Finite 0)"

text \<open>The spaces of a lesson.\<close>

datatype jsnum = Undefined | NaN | Num int

text \<open>Truthiness of the spaces: \<^verbatim>\<open>undefined\<close>, \<^verbatim>\<open>NaN\<close> and \<^verbatim>\<open>0\<close> are falsy.\<close>

fun truthy_num :: "jsnum \<Rightarrow> bool" where
  "truthy_num (Num n) = (n \<noteq> 0)"
| "truthy_num Undefined = False"
| "truthy_num NaN = False"

text \<open>Truthiness of a text field: \<^verbatim>\<open>undefined\<close> and the empty string are falsy.\<close>

fun truthy_text :: "string option \<Rightarrow> bool" where
  "truthy_text None = False"
| "truthy_text (Some s) = (s \<noteq> [])"

text \<open>\<^verbatim>\<open>String(n)\<close> for the spaces.\<close>

fun String_num :: "jsnum \<Rightarrow> string" where
  "String_num (Num n) = numberToString (Finite (of_int n))"
| "String_num Undefined = ''undefined''"
| "String_num NaN = ''NaN''"

text \<open>\<^verbatim>\<open>String(v || "")\<close> on the spaces and on a text field.\<close>

definition numText :: "jsnum \<Rightarrow> string" where
  "numText v = (if truthy_num v then String_num v else [])"

definition textOf :: "string option \<Rightarrow> string" where
  "textOf v = (if truthy_text v then the v else [])"

text \<open>\<^verbatim>\<open>v || 0\<close> on the spaces: always a number.\<close>

definition numOr0 :: "jsnum \<Rightarrow> int" where
  "numOr0 v = (if truthy_num v then (case v of Num n \<Rightarrow> n | _ \<Rightarrow> 0) else 0)"

text \<open>\<^verbatim>\<open>v <= 0\<close>, \<^verbatim>\<open>v - 1\<close> and \<^verbatim>\<open>v + 1\<close> on the spaces; \<^verbatim>\<open>undefined\<close> converts to \<^verbatim>\<open>NaN\<close>,
  every comparison with \<^verbatim>\<open>NaN\<close> is false.\<close>

fun js_le0 :: "jsnum \<Rightarrow> bool" where
  "js_le0 (Num n) = (n \<le> 0)"
| "js_le0 Undefined = False"
| "js_le0 NaN = False"

fun js_sub1 :: "jsnum \<Rightarrow> jsnum" where
  "js_sub1 (Num n) = Num (n - 1)"
| "js_sub1 Undefined = NaN"
| "js_sub1 NaN = NaN"

fun js_add1 :: "jsnum \<Rightarrow> jsnum" where
  "js_add1 (Num n) = Num (n + 1)"
| "js_add1 Undefined = NaN"
| "js_add1 NaN = NaN"

subsection \<open>Strings\<close>

text \<open>\<^verbatim>\<open>toLowerCase\<close> on the code units below 256: the letters \<open>A\<close> to \<open>Z\<close> and the
  capital letters from U+00C0 to U+00DE, the sign U+00D7 apart, move up by 32.\<close>

definition lower_char :: "char \<Rightarrow> char" where
  "lower_char c =
    (let u = (of_char c :: nat)
     in if (65 \<le> u \<and> u \<le> 90) \<or> (192 \<le> u \<and> u \<le> 222 \<and> u \<noteq> 215) then char_of (u + 32) else c)"

definition toLowerCase :: "string \<Rightarrow> string" where
  "toLowerCase s = map lower_char s"

text \<open>\<^verbatim>\<open>text.includes(tm)\<close>: \<open>tm\<close> occurs in \<open>text\<close> as a contiguous run.\<close>

definition str_includes :: "string \<Rightarrow> string \<Rightarrow> bool" where
  "str_includes text tm = sublist tm text"

section \<open>Application state\<close>

text \<open>
  A cart item is the snapshot \<^verbatim>\<open>{ subject, location, price }\<close>; a lesson has these fields
  and \<^verbatim>\<open>spaces\<close> and \<^verbatim>\<open>image\<close>. The state is the object returned by \<^verbatim>\<open>data()\<close>.
\<close>

record cartitem =
  subject :: "string option"
  location :: "string option"
  price :: "number option"

record lesson = cartitem +
  spaces :: jsnum
  image_src :: "string option"

record customer =
  name :: string
  phone :: string

record state =
  apiBase :: string
  view :: string
  searchQuery :: string
  sortAttribute :: string
  sortDir :: string
  lessons :: "lesson list"
  cart :: "cartitem list"
  customer :: customer
  orderMessage :: string

section \<open>Search\<close>

text \<open>The test of \<^verbatim>\<open>searchedLessons\<close> on one lesson, for a non-empty lower-cased term.\<close>

definition matchesTerm :: "string \<Rightarrow> lesson \<Rightarrow> bool" where
  "matchesTerm tm l =
    (let subjectText = toLowerCase (textOf (subject l));
         locationText = toLowerCase (textOf (location l));
         priceText = toLowerCase (numberText (price l));
         spacesText = toLowerCase (numText (spaces l))
     in str_includes subjectText tm \<or> str_includes locationText tm \<or>
        str_includes priceText tm \<or> str_includes spacesText tm)"

text \<open>The \<^verbatim>\<open>for\<close> loop of \<^verbatim>\<open>searchedLessons\<close>, with the array \<^verbatim>\<open>filtered\<close> as accumulator.\<close>

fun searchLoop :: "string \<Rightarrow> lesson list \<Rightarrow> lesson list \<Rightarrow> lesson list" where
  "searchLoop tm [] filtered = filtered"
| "searchLoop tm (l # ls) filtered =
    (if tm = [] then searchLoop tm ls (filtered @ [l])
     else if matchesTerm tm l then searchLoop tm ls (filtered @ [l])
     else searchLoop tm ls filtered)"

definition searchedLessons :: "state \<Rightarrow> lesson list" where
  "searchedLessons st = searchLoop (toLowerCase (searchQuery st)) (lessons st) []"

section \<open>Sort\<close>

text \<open>The value \<^verbatim>\<open>getSortValue\<close> returns is a string or a number.\<close>

datatype sortval = SNum number | SStr string

definition getSortValue :: "state \<Rightarrow> lesson \<Rightarrow> sortval" where
  "getSortValue st l =
    (if sortAttribute st = ''subject'' then SStr (toLowerCase (textOf (subject l)))
     else if sortAttribute st = ''location'' then SStr (toLowerCase (textOf (location l)))
     else if sortAttribute st = ''price'' then SNum (numberOr0 (price l))
     else if sortAttribute st = ''spaces'' then SNum (Finite (of_int (numOr0 (spaces l))))
     else SNum (Finite 0))"

text \<open>
  \<^verbatim>\<open>a > b\<close> and \<^verbatim>\<open>a < b\<close> on two sort values. Within one run of the sort all values come
  from the same branch of \<^verbatim>\<open>getSortValue\<close>, so a string never meets a number; for the two
  mixed cases the model answers \<open>False\<close>, as JavaScript does for a string that is no numeral.
\<close>

fun js_gt :: "sortval \<Rightarrow> sortval \<Rightarrow> bool" where
  "js_gt (SNum a) (SNum b) = num_lt b a"
| "js_gt (SStr a) (SStr b) = (a > b)"
| "js_gt _ _ = False"

fun js_lt :: "sortval \<Rightarrow> sortval \<Rightarrow> bool" where
  "js_lt (SNum a) (SNum b) = num_lt a b"
| "js_lt (SStr a) (SStr b) = (a < b)"
| "js_lt _ _ = False"

text \<open>The comparator passed to \<^verbatim>\<open>list.sort\<close>.\<close>

definition compareLessons :: "state \<Rightarrow> lesson \<Rightarrow> lesson \<Rightarrow> int" where
  "compareLessons st a b =
    (let aVal = getSortValue st a; bVal = getSortValue st b
     in if js_gt aVal bVal then 1 else if js_lt aVal bVal then - 1 else 0)"

text \<open>
  \<^verbatim>\<open>Array.prototype.sort\<close> with a comparator is a stable sort. For a comparator that is a
  consistent ordering, as \<open>compareLessons\<close> is, every stable sort returns the same array;
  the model is insertion sort, where an element moves behind exactly the elements it
  compares greater than.
\<close>

fun sortInsert :: "('a \<Rightarrow> 'a \<Rightarrow> int) \<Rightarrow> 'a \<Rightarrow> 'a list \<Rightarrow> 'a list" where
  "sortInsert cmp x [] = [x]"
| "sortInsert cmp x (y # ys) = (if cmp x y > 0 then y # sortInsert cmp x ys else x # y # ys)"

fun arraySort :: "('a \<Rightarrow> 'a \<Rightarrow> int) \<Rightarrow> 'a list \<Rightarrow> 'a list" where
  "arraySort cmp [] = []"
| "arraySort cmp (x # xs) = sortInsert cmp x (arraySort cmp xs)"

definition sortedLessons :: "state \<Rightarrow> lesson list" where
  "sortedLessons st =
    (let list = arraySort (compareLessons st) (searchedLessons st)
     in if sortDir st = ''desc'' then rev list else list)"

definition displayedLessons :: "state \<Rightarrow> lesson list" where
  "displayedLessons st = sortedLessons st"

section \<open>Cart\<close>


text \<open>\<^verbatim>\<open>this.cart.reduce((sum, item) => sum + (item.price || 0), 0)\<close>: every addition
  rounds.\<close>

definition cartTotal :: "state \<Rightarrow> number" where
  "cartTotal st = foldl (\<lambda>sum item. js_add sum (numberOr0 (price item))) (Finite 0) (cart st)"

text \<open>
  \<^verbatim>\<open>/^[A-Za-z ]+$/\<close> and \<^verbatim>\<open>/^[0-9]+$/\<close>: a character class, given by its ranges, repeated
  once or more between the two anchors. Without the \<^verbatim>\<open>m\<close> flag \<^verbatim>\<open>$\<close> matches at the end of
  the input only.
\<close>

fun in_class :: "(char \<times> char) list \<Rightarrow> char \<Rightarrow> bool" where
  "in_class [] c = False"
| "in_class ((lo, hi) # rs) c = ((lo \<le> c \<and> c \<le> hi) \<or> in_class rs c)"

fun match_rest :: "(char \<times> char) list \<Rightarrow> string \<Rightarrow> bool" where
  "match_rest cls [] = True"
| "match_rest cls (c # cs) = (in_class cls c \<and> match_rest cls cs)"

fun regex_test :: "(char \<times> char) list \<Rightarrow> string \<Rightarrow> bool" where
  "regex_test cls [] = False"
| "regex_test cls (c # cs) = (in_class cls c \<and> match_rest cls cs)"

definition name_class :: "(char \<times> char) list" where
  "name_class = [(CHR ''A'', CHR ''Z''), (CHR ''a'', CHR ''z''), (CHR '' '', CHR '' '')]"

definition phone_class :: "(char \<times> char) list" where
  "phone_class = [(CHR ''0'', CHR ''9'')]"

definition isCheckoutValid :: "state \<Rightarrow> bool" where
  "isCheckoutValid st =
    (let nameOK = regex_test name_class (name (customer st));
         phoneOK = regex_test phone_class (phone (customer st))
     in nameOK \<and> phoneOK \<and> length (cart st) > 0)"

text \<open>
  \<^verbatim>\<open>addToCart(lesson)\<close>. The template passes an element of the catalog, which the method
  mutates in place: the argument is the position of that object in \<^verbatim>\<open>this.lessons\<close>, and
  \<open>None\<close>, or a position behind the end of the array, is an absent lesson.
\<close>

definition addToCart :: "state \<Rightarrow> nat option \<Rightarrow> state" where
  "addToCart st r =
    (case r of
       None \<Rightarrow> st
     | Some i \<Rightarrow>
         if i \<ge> length (lessons st) then st
         else
           let lesson = lessons st ! i in
           if js_le0 (spaces lesson) then st
           else st\<lparr>lessons := (lessons st)[i := lesson\<lparr>spaces := js_sub1 (spaces lesson)\<rparr>],
                   cart := cart st @
                     [\<lparr>subject = subject lesson, location = location lesson, price = price lesson\<rparr>]\<rparr>)"

text \<open>\<^verbatim>\<open>this.lessons.find(p)\<close> returns the first element that satisfies \<open>p\<close>; since the
  caller mutates that object, the model returns its position.\<close>

fun findIndex :: "('a \<Rightarrow> bool) \<Rightarrow> 'a list \<Rightarrow> nat option" where
  "findIndex p [] = None"
| "findIndex p (x # xs) = (if p x then Some 0 else map_option Suc (findIndex p xs))"

definition sameKey :: "'a cartitem_scheme \<Rightarrow> lesson \<Rightarrow> bool" where
  "sameKey item l = (subject l = subject item \<and> location l = location item)"

text \<open>
  \<^verbatim>\<open>removeOne(index, item)\<close>. The callback of \<^verbatim>\<open>find\<close> reads \<^verbatim>\<open>item.subject\<close>: with an
  \<^verbatim>\<open>item\<close> that is \<^verbatim>\<open>undefined\<close> its first call, on the first lesson of the catalog, throws
  a \<^verbatim>\<open>TypeError\<close>, after the cart has been spliced; on an empty catalog it is never called.
\<close>

datatype completion = Normal | TypeError

definition removeOne :: "state \<Rightarrow> int \<Rightarrow> cartitem option \<Rightarrow> completion \<times> state" where
  "removeOne st index item =
    (if index < 0 \<or> index \<ge> int (length (cart st)) then (Normal, st)
     else
       let st1 = st\<lparr>cart := take (nat index) (cart st) @ drop (nat index + 1) (cart st)\<rparr> in
       case item of
         None \<Rightarrow> if lessons st1 = [] then (Normal, st1) else (TypeError, st1)
       | Some it \<Rightarrow>
           (case findIndex (sameKey it) (lessons st1) of
              None \<Rightarrow> (Normal, st1)
            | Some j \<Rightarrow>
                (Normal, st1\<lparr>lessons := (lessons st1)
                   [j := (lessons st1 ! j)\<lparr>spaces := js_add1 (spaces (lessons st1 ! j))\<rparr>]\<rparr>)))"

section \<open>Backend calls\<close>

text \<open>
  A \<^verbatim>\<open>fetch\<close> either rejects (the network failed) or resolves to a response with its
  \<^verbatim>\<open>ok\<close> flag and, for \<^verbatim>\<open>GET /lessons\<close>, the array that \<^verbatim>\<open>res.json()\<close> parses, \<open>None\<close>
  when the body is no JSON. The backend is the list of the results of the calls still to
  come, in order; when it is used up, the next call never settles, and the operation that
  awaits it stays pending. An operation returns how it ended, the state it left and what
  it did to the outside: its requests, its console messages and its alerts.
\<close>

datatype fetch_result = Rejected | Response bool "lesson list option"

datatype body =
    OrderBody string string "cartitem list" number
  | SpacesBody "string option" "string option" jsnum

datatype effect =
    Fetch string string "body option"
  | ConsoleError string
  | Alert string

datatype outcome = Skipped | Succeeded | Failed | Pending

definition loadLessons :: "state \<Rightarrow> fetch_result list \<Rightarrow> outcome \<times> state \<times> effect list" where
  "loadLessons st rs =
    (let request = Fetch ''GET'' (apiBase st @ ''/lessons'') None;
         caught = [ConsoleError ''Could not load lessons:'', Alert ''Could not load lessons.'']
     in case rs of
          [] \<Rightarrow> (Pending, st, [request])
        | Rejected # _ \<Rightarrow> (Failed, st, request # caught)
        | Response ok data # _ \<Rightarrow>
            if \<not> ok then (Failed, st, request # caught)
            else (case data of
                    None \<Rightarrow> (Failed, st, request # caught)
                  | Some d \<Rightarrow> (Succeeded, st\<lparr>lessons := d\<rparr>, [request])))"

text \<open>
  The \<^verbatim>\<open>for\<close> loop of \<^verbatim>\<open>checkout\<close> over the cart: one \<^verbatim>\<open>PUT\<close> for each item with a lesson
  of the same subject and location. The loop awaits each call and does not look at the
  response. It returns how it ended, its requests and the backend that is left.
\<close>

fun putLoop :: "state \<Rightarrow> cartitem list \<Rightarrow> fetch_result list \<Rightarrow>
    outcome \<times> effect list \<times> fetch_result list" where
  "putLoop st [] rs = (Succeeded, [], rs)"
| "putLoop st (item # items) rs =
    (case findIndex (sameKey item) (lessons st) of
       None \<Rightarrow> putLoop st items rs
     | Some j \<Rightarrow>
         let request = Fetch ''PUT'' (apiBase st @ ''/lessons'')
               (Some (SpacesBody (subject item) (location item) (spaces (lessons st ! j))))
         in case rs of
              [] \<Rightarrow> (Pending, [request], [])
            | Rejected # rs' \<Rightarrow> (Failed, [request], rs')
            | Response ok data # rs' \<Rightarrow>
                (case putLoop st items rs' of (out, es, rs'') \<Rightarrow> (out, request # es, rs'')))"

definition checkout :: "state \<Rightarrow> fetch_result list \<Rightarrow> outcome \<times> state \<times> effect list" where
  "checkout st rs =
    (if \<not> isCheckoutValid st then (Skipped, st, [])
     else
       let order = OrderBody (name (customer st)) (phone (customer st)) (cart st) (cartTotal st);
           request = Fetch ''POST'' (apiBase st @ ''/order'') (Some order);
           caught = [ConsoleError ''Error submitting order:'',
                     Alert ''There was a problem submitting your order.'']
       in case rs of
            [] \<Rightarrow> (Pending, st, [request])
          | Rejected # _ \<Rightarrow> (Failed, st, request # caught)
          | Response ok data # rs1 \<Rightarrow>
              if \<not> ok then (Failed, st, request # caught)
              else (case putLoop st (cart st) rs1 of
                      (Failed, es, _) \<Rightarrow> (Failed, st, request # es @ caught)
                    | (Pending, es, _) \<Rightarrow> (Pending, st, request # es)
                    | (_, es, rs2) \<Rightarrow>
                        let st1 = st\<lparr>orderMessage := ''Order submitted!'', cart := [],
                                     customer := \<lparr>name = [], phone = []\<rparr>\<rparr>
                        in (case loadLessons st1 rs2 of
                              (Pending, st2, es2) \<Rightarrow> (Pending, st2, request # es @ es2)
                            | (_, st2, es2) \<Rightarrow> (Succeeded, st2, request # es @ es2))))"

section \<open>Notions of the specification\<close>

text \<open>The letters and digits of the checkout form, and the requests among the effects.\<close>

definition is_letter :: "char \<Rightarrow> bool" where
  "is_letter c = ((CHR ''A'' \<le> c \<and> c \<le> CHR ''Z'') \<or> (CHR ''a'' \<le> c \<and> c \<le> CHR ''z''))"

definition is_digit :: "char \<Rightarrow> bool" where
  "is_digit c = (CHR ''0'' \<le> c \<and> c \<le> CHR ''9'')"

definition is_fetch :: "effect \<Rightarrow> bool" where
  "is_fetch e = (case e of Fetch m u b \<Rightarrow> True | _ \<Rightarrow> False)"



text \<open>The integer a price stands for, a missing price standing for 0; none for a price
  that is no integer.\<close>

fun wholeAmount :: "number option \<Rightarrow> int option" where
  "wholeAmount None = Some 0"
| "wholeAmount (Some (Finite x)) = (if of_int \<lfloor>x\<rfloor> = x then Some \<lfloor>x\<rfloor> else None)"
| "wholeAmount (Some NotANumber) = None"
| "wholeAmount (Some PosInfinity) = None"
| "wholeAmount (Some NegInfinity) = None"


text \<open>\<^verbatim>\<open>this.cart[index]\<close>, the item the template hands to \<^verbatim>\<open>removeOne\<close> with its index.\<close>

definition cartEntry :: "state \<Rightarrow> int \<Rightarrow> cartitem option" where
  "cartEntry st index =
    (if 0 \<le> index \<and> index < int (length (cart st)) then Some (cart st ! nat index) else None)"

section \<open>Example states\<close>

text \<open>The state \<^verbatim>\<open>data()\<close> returns, and the catalog and cart of the scenarios.\<close>

definition initialState :: state where
  "initialState =
    \<lparr>apiBase = ''https://educate-app-backend.onrender.com/api'', view = ''lessons'',
     searchQuery = [], sortAttribute = ''subject'', sortDir = ''asc'', lessons = [], cart = [],
     customer = \<lparr>name = [], phone = []\<rparr>, orderMessage = []\<rparr>"

definition mathLesson :: lesson where
  "mathLesson = \<lparr>subject = Some ''Math'', location = Some ''Hall A'', price = Some (Finite 20),
     spaces = Num 2, image_src = None\<rparr>"

definition artLesson :: lesson where
  "artLesson = \<lparr>subject = Some ''Art'', location = Some ''Room 2'', price = Some (Finite 25),
     spaces = Num 0, image_src = None\<rparr>"

definition mathItem :: cartitem where
  "mathItem = \<lparr>subject = Some ''Math'', location = Some ''Hall A'', price = Some (Finite 20)\<rparr>"

definition artItem :: cartitem where
  "artItem = \<lparr>subject = Some ''Art'', location = Some ''Room 2'', price = Some (Finite 25)\<rparr>"

text \<open>One seat of the Math lesson in the cart, one seat left, and a filled-in form.\<close>

definition seatState :: state where
  "seatState = initialState\<lparr>lessons := [mathLesson\<lparr>spaces := Num 1\<rparr>, artLesson],
     cart := [mathItem], customer := \<lparr>name = ''Jane Doe'', phone = ''5551234''\<rparr>\<rparr>"



text \<open>The filled-in form with an empty cart, with a digit in the name, and with a letter in
  the phone number.\<close>

definition janeNoCart :: state where
  "janeNoCart = seatState\<lparr>cart := []\<rparr>"

definition digitName :: state where
  "digitName = seatState\<lparr>customer := \<lparr>name = ''Jane 2'', phone = ''5551234''\<rparr>\<rparr>"

definition letterPhone :: state where
  "letterPhone = seatState\<lparr>customer := \<lparr>name = ''Jane Doe'', phone = ''555x234''\<rparr>\<rparr>"



text \<open>A cart with the prices 19.99 and 5.01, as the numbers these decimals parse to.\<close>

definition centState :: state where
  "centState = initialState\<lparr>cart :=
     [\<lparr>subject = Some ''Math'', location = Some ''Hall A'', price = Some (fl (1999 / 100))\<rparr>,
      \<lparr>subject = Some ''Art'', location = Some ''Room 2'', price = Some (fl (501 / 100))\<rparr>]\<rparr>"

text \<open>The sold-out Art lesson alone in the catalog, and the search for \<^verbatim>\<open>0\<close>.\<close>

definition zeroQuery :: state where
  "zeroQuery = initialState\<lparr>lessons := [artLesson], searchQuery := ''0''\<rparr>"

text \<open>A backend that accepts the order, answers the update of the spaces with a status
  that is no success, and then delivers the catalog.\<close>

definition updateRefused :: "fetch_result list" where
  "updateRefused = [Response True None, Response False None,
     Response True (Some [mathLesson\<lparr>spaces := Num 1\<rparr>, artLesson])]"

section \<open>Rounding\<close>

text \<open>An integer below \<open>2^53\<close> in absolute value is a binary64 value: rounding leaves it as
  it is, and the sum of two such integers, when it stays below \<open>2^53\<close>, is exact.\<close>

lemma round_half_even_of_int: "round_half_even (of_int j) = j"
  by (simp add: round_half_even_def)

lemma fl_pos_int:
  assumes "0 < k" "k < 2 ^ 53"
  shows "fl (of_int k) = Finite (of_int k)"
proof -
  let ?d = "bitlen k - 1"
  from bitlen_bounds [OF assms(1)] have lo: "2 ^ nat ?d \<le> k"
    by auto
  have b1: "1 \<le> bitlen k"
    using assms(1) bitlen_eq_zero_iff [of k] bitlen_nonneg [of k] by linarith
  have "bitlen k \<le> 53"
    using assms(2) by (simp add: bitlen_le_iff_power)
  then have d: "0 \<le> ?d" "?d \<le> 52" using b1 by auto
  have be: "binexp (of_int k) = ?d"
    using assms(1) by (simp add: binexp_def)
  have m: "max ?d (- 1022) = ?d" using d by simp
  define j where "j = k * 2 ^ nat (52 - ?d)"
  have ulp: "pow2 (?d - 52) = 1 / 2 ^ nat (52 - ?d)"
  proof (cases "?d = 52")
    case True
    then show ?thesis by (simp add: pow2_def)
  next
    case False
    with d have "?d - 52 < 0" by simp
    then show ?thesis by (simp add: pow2_def)
  qed
  have q: "of_int k / pow2 (?d - 52) = (of_int j :: rat)"
    unfolding ulp j_def by simp
  have y: "of_int j * pow2 (?d - 52) = (of_int k :: rat)"
    unfolding ulp j_def by simp
  have "(of_int k :: rat) < 2 ^ 53"
    using assms(2) by (metis of_int_less_iff of_int_numeral of_int_power)
  also have "\<dots> \<le> pow2 1024"
    by (simp add: pow2_def)
  finally have small: "\<not> pow2 1024 \<le> (of_int k :: rat)" by simp
  have nz: "(of_int k :: rat) \<noteq> 0" "0 < (of_int k :: rat)" "\<bar>of_int k :: rat\<bar> = of_int k"
    using assms(1) by auto
  show ?thesis
    unfolding fl_def Let_def nz(3) be m q round_half_even_of_int y
    using nz small by simp
qed

lemma fl_minus:
  "fl (- x) = (case fl x of Finite y \<Rightarrow> Finite (- y) | PosInfinity \<Rightarrow> NegInfinity
     | NegInfinity \<Rightarrow> PosInfinity | NotANumber \<Rightarrow> NotANumber)"
  by (cases "0 < x"; cases "x = 0") (auto simp: fl_def Let_def)

lemma fl_of_int:
  assumes "\<bar>k\<bar> < 2 ^ 53"
  shows "fl (of_int k) = Finite (of_int k)"
proof (cases "k = 0")
  case True
  then show ?thesis by (simp add: fl_def)
next
  case False
  show ?thesis
  proof (cases "0 < k")
    case True
    with assms show ?thesis by (intro fl_pos_int) auto
  next
    case n: False
    with False assms have "0 < - k" "- k < 2 ^ 53" by auto
    then have "fl (of_int (- k)) = Finite (of_int (- k))" by (rule fl_pos_int)
    then have "fl (- of_int k) = Finite (- of_int k)" by simp
    then show ?thesis
      using fl_minus [of "- of_int k"] by simp
  qed
qed

lemma fl_numeral:
  assumes "(numeral w :: int) < 2 ^ 53"
  shows "fl (numeral w) = Finite (numeral w)"
proof -
  have "\<bar>numeral w :: int\<bar> < 2 ^ 53"
    using assms by (simp only: abs_numeral)
  from fl_of_int [OF this] show ?thesis
    by (simp only: of_int_numeral)
qed

lemma js_add_int:
  "\<bar>a + b\<bar> < 2 ^ 53 \<Longrightarrow>
   js_add (Finite (of_int a)) (Finite (of_int b)) = Finite (of_int (a + b))"
  using fl_of_int [of "a + b"] by simp

text \<open>A value of \<open>fl\<close> is checked from its binary exponent and its significand.\<close>

lemma floor_rat_quot: "\<lfloor>numeral a / numeral b :: rat\<rfloor> = numeral a div numeral b"
  by (metis floor_divide_of_int_eq of_int_numeral)

lemma fl_certificate:
  assumes "0 < x" "binexp x = e" "- 1022 \<le> e"
    and "round_half_even (x / pow2 (e - 52)) = m"
    and "of_int m * pow2 (e - 52) = y" "y < pow2 1024"
  shows "fl x = Finite y"
proof -
  from assms(1) have ax: "\<bar>x\<bar> = x" and nz: "x \<noteq> 0" by auto
  have me: "max (binexp x) (- 1022) = e" using assms(2,3) by simp
  have "fl x = (if pow2 1024 \<le> y then PosInfinity else Finite y)"
    unfolding fl_def Let_def ax me assms(4) assms(5) using assms(1) nz by simp
  with assms(6) show ?thesis by simp
qed

text \<open>The decimals 19.99 and 5.01 as numbers, their sum, and 25 less the second.\<close>

lemma fl_1999: "fl (1999 / 100) = Finite (5626684784446013 / 281474976710656)"
  by (rule fl_certificate [where e = 4 and m = 5626684784446013])
    (simp_all add: binexp_def compute_bitlen floor_rat_quot round_half_even_def pow2_def Let_def)

lemma fl_501: "fl (501 / 100) = Finite (2820379266640773 / 562949953421312)"
  by (rule fl_certificate [where e = 2 and m = 5640758533281546])
    (simp_all add: binexp_def compute_bitlen floor_rat_quot round_half_even_def pow2_def Let_def)

lemma fl_1999_again:
  "fl (5626684784446013 / 281474976710656) = Finite (5626684784446013 / 281474976710656)"
  by (rule fl_certificate [where e = 4 and m = 5626684784446013])
    (simp_all add: binexp_def compute_bitlen floor_rat_quot round_half_even_def pow2_def Let_def)

lemma fl_sum_cents:
  "fl (5626684784446013 / 281474976710656 + 2820379266640773 / 562949953421312) = Finite 25"
  by (rule fl_certificate [where e = 4 and m = 7036874417766400])
    (simp_all add: binexp_def compute_bitlen floor_rat_quot round_half_even_def pow2_def Let_def)

lemma fl_diff_cents:
  "fl (25 - 2820379266640773 / 562949953421312) = Finite (2813342392223007 / 140737488355328)"
  by (rule fl_certificate [where e = 4 and m = 5626684784446014])
    (simp_all add: binexp_def compute_bitlen floor_rat_quot round_half_even_def pow2_def Let_def)

section \<open>Cart total\<close>

lemma numberOr0_whole: "wholeAmount v = Some k \<Longrightarrow> numberOr0 v = Finite (of_int k)"
  by (cases v rule: wholeAmount.cases) (auto simp: numberOr0_def split: if_splits)

lemma foldl_whole:
  "map (\<lambda>it. wholeAmount (price it)) items = map Some ks \<Longrightarrow>
   \<bar>a\<bar> + (\<Sum>k\<leftarrow>ks. \<bar>k\<bar>) < 2 ^ 53 \<Longrightarrow>
   foldl (\<lambda>sum item. js_add sum (numberOr0 (price item))) (Finite (of_int a)) items =
     Finite (of_int (a + sum_list ks))"
proof (induction items arbitrary: a ks)
  case Nil
  then show ?case by simp
next
  case (Cons it items)
  then obtain k ks' where ks: "ks = k # ks'" and k: "wholeAmount (price it) = Some k"
    and rest: "map (\<lambda>it. wholeAmount (price it)) items = map Some ks'"
    by (cases ks) auto
  have "0 \<le> (\<Sum>k\<leftarrow>ks'. \<bar>k\<bar>)"
    by (rule sum_list_nonneg) auto
  with Cons.prems(2) ks have b: "\<bar>a + k\<bar> < 2 ^ 53" "\<bar>a + k\<bar> + (\<Sum>k\<leftarrow>ks'. \<bar>k\<bar>) < 2 ^ 53"
    by auto
  have "js_add (Finite (of_int a)) (numberOr0 (price it)) = Finite (of_int (a + k))"
    using numberOr0_whole [OF k] js_add_int [OF b(1)] by simp
  then show ?case
    using Cons.IH [OF rest b(2)] ks by (simp add: add.assoc)
qed

lemma cartTotal_whole:
  "map (\<lambda>it. wholeAmount (price it)) (cart st) = map Some ks \<Longrightarrow>
   (\<Sum>k\<leftarrow>ks. \<bar>k\<bar>) < 2 ^ 53 \<Longrightarrow> cartTotal st = Finite (of_int (sum_list ks))"
  using foldl_whole [of "cart st" ks 0] by (simp add: cartTotal_def)

lemma sum_abs_take_drop:
  "(\<Sum>k\<leftarrow>take i ks @ drop (Suc i) ks. \<bar>k :: int\<bar>) \<le> (\<Sum>k\<leftarrow>ks. \<bar>k\<bar>)"
proof (induction ks arbitrary: i)
  case Nil
  then show ?case by simp
next
  case (Cons k ks)
  then show ?case by (cases i) (auto intro: add_mono)
qed

lemma sum_take_drop:
  "i < length ks \<Longrightarrow> sum_list (take i ks @ drop (Suc i) ks) = sum_list ks - (ks ! i :: int)"
proof -
  assume "i < length ks"
  then have "ks = take i ks @ ks ! i # drop (Suc i) ks"
    by (simp add: id_take_nth_drop)
  then have "sum_list ks = sum_list (take i ks @ ks ! i # drop (Suc i) ks)"
    by simp
  then show ?thesis by simp
qed

lemma cart_removeOne:
  "0 \<le> index \<Longrightarrow> index < int (length (cart st)) \<Longrightarrow>
   cart (snd (removeOne st index item)) =
     take (nat index) (cart st) @ drop (Suc (nat index)) (cart st)"
  by (auto simp: removeOne_def Let_def split: option.splits)

lemma cartTotal_snoc:
  "cartTotal (st\<lparr>cart := cart st @ [item]\<rparr>) = js_add (cartTotal st) (numberOr0 (price item))"
  by (simp add: cartTotal_def)

lemma cartTotal_addToCart:
  "i < length (lessons st) \<Longrightarrow> \<not> js_le0 (spaces (lessons st ! i)) \<Longrightarrow>
   cartTotal (addToCart st (Some i)) =
     js_add (cartTotal st) (numberOr0 (price (lessons st ! i)))"
  by (simp add: cartTotal_def addToCart_def Let_def)

text \<open>
  Claim C7, as the code has it. The cart total is the sum of the prices of the cart items
  from left to right in double-precision arithmetic, an item without a price counting 0,
  and an \<open>addToCart\<close> that reserves a seat makes it the rounded sum of the total before
  and the price of the lesson. When the prices in the cart are integers whose absolute
  values sum to less than \<open>2^53\<close>, the total is their exact sum, a \<open>removeOne\<close> at an index
  of the cart lowers it by exactly the price the removed item had captured, and an
  \<open>addToCart\<close> of a lesson with an integer price, the bound still holding, raises it by
  exactly that price.
\<close>

theorem cartTotal_whole_prices:
  "cartTotal (st\<lparr>cart := []\<rparr>) = Finite 0 \<and>
   cartTotal (st\<lparr>cart := cart st @ [item]\<rparr>) =
     js_add (cartTotal st) (numberOr0 (price item)) \<and>
   (i < length (lessons st) \<and> \<not> js_le0 (spaces (lessons st ! i)) \<longrightarrow>
      cartTotal (addToCart st (Some i)) =
        js_add (cartTotal st) (numberOr0 (price (lessons st ! i)))) \<and>
   (map (\<lambda>it. wholeAmount (price it)) (cart st) = map Some ks \<and>
    (\<Sum>k\<leftarrow>ks. \<bar>k\<bar>) < 2 ^ 53 \<longrightarrow>
      cartTotal st = Finite (of_int (sum_list ks)) \<and>
      (i < length (lessons st) \<and> \<not> js_le0 (spaces (lessons st ! i)) \<and>
       wholeAmount (price (lessons st ! i)) = Some p \<and>
       (\<Sum>k\<leftarrow>ks. \<bar>k\<bar>) + \<bar>p\<bar> < 2 ^ 53 \<longrightarrow>
         cartTotal (addToCart st (Some i)) = Finite (of_int (sum_list ks + p))) \<and>
      (0 \<le> index \<and> index < int (length (cart st)) \<longrightarrow>
         cartTotal (snd (removeOne st index arg)) =
           Finite (of_int (sum_list ks - ks ! nat index))))"
proof (intro conjI impI)
  show "cartTotal (st\<lparr>cart := []\<rparr>) = Finite 0"
    by (simp add: cartTotal_def)
next
  show "cartTotal (st\<lparr>cart := cart st @ [item]\<rparr>) =
     js_add (cartTotal st) (numberOr0 (price item))"
    by (rule cartTotal_snoc)
next
  assume "i < length (lessons st) \<and> \<not> js_le0 (spaces (lessons st ! i))"
  then show "cartTotal (addToCart st (Some i)) =
        js_add (cartTotal st) (numberOr0 (price (lessons st ! i)))"
    by (simp add: cartTotal_addToCart)
next
  assume w: "map (\<lambda>it. wholeAmount (price it)) (cart st) = map Some ks \<and>
    (\<Sum>k\<leftarrow>ks. \<bar>k\<bar>) < 2 ^ 53"
  then show "cartTotal st = Finite (of_int (sum_list ks))"
    by (simp add: cartTotal_whole)
next
  assume w: "map (\<lambda>it. wholeAmount (price it)) (cart st) = map Some ks \<and>
    (\<Sum>k\<leftarrow>ks. \<bar>k\<bar>) < 2 ^ 53"
  assume a: "i < length (lessons st) \<and> \<not> js_le0 (spaces (lessons st ! i)) \<and>
       wholeAmount (price (lessons st ! i)) = Some p \<and>
       (\<Sum>k\<leftarrow>ks. \<bar>k\<bar>) + \<bar>p\<bar> < 2 ^ 53"
  have t: "cartTotal st = Finite (of_int (sum_list ks))"
    using w by (simp add: cartTotal_whole)
  have "\<bar>sum_list ks\<bar> \<le> (\<Sum>k\<leftarrow>ks. \<bar>k\<bar>)"
    by (rule sum_list_abs)
  with a have b: "\<bar>sum_list ks + p\<bar> < 2 ^ 53" by linarith
  show "cartTotal (addToCart st (Some i)) = Finite (of_int (sum_list ks + p))"
    using a t numberOr0_whole [of "price (lessons st ! i)" p] js_add_int [OF b]
    by (simp add: cartTotal_addToCart)
next
  assume w: "map (\<lambda>it. wholeAmount (price it)) (cart st) = map Some ks \<and>
    (\<Sum>k\<leftarrow>ks. \<bar>k\<bar>) < 2 ^ 53"
  assume a: "0 \<le> index \<and> index < int (length (cart st))"
  let ?i = "nat index"
  let ?st' = "snd (removeOne st index arg)"
  from w have len: "length ks = length (cart st)"
    by (metis length_map)
  with a have n: "?i < length ks" by linarith
  have c: "cart ?st' = take ?i (cart st) @ drop (Suc ?i) (cart st)"
    using a by (simp add: cart_removeOne)
  have m: "map (\<lambda>it. wholeAmount (price it)) (cart ?st') = map Some (take ?i ks @ drop (Suc ?i) ks)"
    using w unfolding c by (simp add: take_map [symmetric] drop_map [symmetric])
  have b: "(\<Sum>k\<leftarrow>take ?i ks @ drop (Suc ?i) ks. \<bar>k\<bar>) < 2 ^ 53"
    using sum_abs_take_drop [of ?i ks] w by linarith
  show "cartTotal ?st' = Finite (of_int (sum_list ks - ks ! nat index))"
    using cartTotal_whole [OF m b] sum_take_drop [OF n] by simp
qed

theorem cartTotal_whole_prices_witness:
  "(0 < length (lessons seatState) \<and> \<not> js_le0 (spaces (lessons seatState ! 0))) \<and>
   (map (\<lambda>it. wholeAmount (price it)) (cart seatState) = map Some [20] \<and>
    (\<Sum>k\<leftarrow>[20::int]. \<bar>k\<bar>) < 2 ^ 53) \<and>
   cartTotal seatState = Finite (of_int (sum_list [20])) \<and>
   (0 < length (lessons seatState) \<and> \<not> js_le0 (spaces (lessons seatState ! 0)) \<and>
    wholeAmount (price (lessons seatState ! 0)) = Some 20 \<and>
    (\<Sum>k\<leftarrow>[20::int]. \<bar>k\<bar>) + \<bar>20\<bar> < 2 ^ 53) \<and>
   cartTotal (addToCart seatState (Some 0)) = Finite (of_int (sum_list [20] + 20)) \<and>
   ((0::int) \<le> 0 \<and> 0 < int (length (cart seatState))) \<and>
   cartTotal (snd (removeOne seatState 0 (Some mathItem))) =
     Finite (of_int (sum_list [20] - [20] ! nat 0))"
proof -
  have h1: "0 < length (lessons seatState) \<and> \<not> js_le0 (spaces (lessons seatState ! 0))"
    by (simp add: seatState_def)
  have h2: "map (\<lambda>it. wholeAmount (price it)) (cart seatState) = map Some [20] \<and>
    (\<Sum>k\<leftarrow>[20::int]. \<bar>k\<bar>) < 2 ^ 53"
    by (simp add: seatState_def mathItem_def)
  have h3: "0 < length (lessons seatState) \<and> \<not> js_le0 (spaces (lessons seatState ! 0)) \<and>
    wholeAmount (price (lessons seatState ! 0)) = Some 20 \<and>
    (\<Sum>k\<leftarrow>[20::int]. \<bar>k\<bar>) + \<bar>20\<bar> < 2 ^ 53"
    by (simp add: seatState_def mathLesson_def)
  have h4: "(0::int) \<le> 0 \<and> 0 < int (length (cart seatState))"
    by (simp add: seatState_def)
  show ?thesis
    using h1 h2 h3 h4
      cartTotal_whole_prices [of seatState mathItem 0 "[20]" 20 0 "Some mathItem"]
    by blast
qed

text \<open>
  Claim C7, as it is stated, fails where the arithmetic rounds. With the prices 19.99 and
  5.01 in the cart the total is 25; after the item of 5.01 is removed it is 19.99, which
  is neither 25 less the price in exact arithmetic nor the difference JavaScript computes,
  19.990000000000002.
\<close>

theorem cartTotal_rounds:
  "cartTotal centState = Finite 25 \<and>
   price (cart centState ! 1) = Some (Finite (2820379266640773 / 562949953421312)) \<and>
   cartTotal (snd (removeOne centState 1 (cartEntry centState 1))) =
     Finite (5626684784446013 / 281474976710656) \<and>
   js_sub (Finite 25) (Finite (2820379266640773 / 562949953421312)) =
     Finite (2813342392223007 / 140737488355328) \<and>
   (25 :: rat) - 2820379266640773 / 562949953421312 \<noteq> 5626684784446013 / 281474976710656 \<and>
   cartTotal (snd (removeOne centState 1 (cartEntry centState 1))) \<noteq>
     js_sub (cartTotal centState) (numberOr0 (price (cart centState ! 1)))"
proof -
  have c: "cart centState =
     [\<lparr>subject = Some ''Math'', location = Some ''Hall A'',
        price = Some (Finite (5626684784446013 / 281474976710656))\<rparr>,
      \<lparr>subject = Some ''Art'', location = Some ''Room 2'',
        price = Some (Finite (2820379266640773 / 562949953421312))\<rparr>]"
    by (simp add: centState_def fl_1999 fl_501)
  have t: "cartTotal centState = Finite 25"
    unfolding cartTotal_def c using fl_sum_cents by (simp add: numberOr0_def fl_1999_again)
  have p: "price (cart centState ! 1) = Some (Finite (2820379266640773 / 562949953421312))"
    unfolding c by simp
  have a: "cartTotal (snd (removeOne centState 1 (cartEntry centState 1))) =
     Finite (5626684784446013 / 281474976710656)"
    by (simp add: removeOne_def cartEntry_def cartTotal_def c centState_def initialState_def
        numberOr0_def fl_1999_again fl_1999 fl_501 Let_def)
  have d: "js_sub (Finite 25) (Finite (2820379266640773 / 562949953421312)) =
     Finite (2813342392223007 / 140737488355328)"
    using fl_diff_cents by (simp add: js_sub_def)
  show ?thesis
    unfolding t a p using d by (simp add: numberOr0_def)
qed

section \<open>Adding a seat\<close>



section \<open>Checkout validation\<close>

lemma match_rest_iff: "match_rest cls s \<longleftrightarrow> (\<forall>c\<in>set s. in_class cls c)"
  by (induction s) auto

lemma regex_test_iff: "regex_test cls s \<longleftrightarrow> s \<noteq> [] \<and> (\<forall>c\<in>set s. in_class cls c)"
  by (cases s) (auto simp: match_rest_iff)

lemma in_name_class: "in_class name_class c \<longleftrightarrow> is_letter c \<or> c = CHR '' ''"
  by (auto simp: name_class_def is_letter_def)

lemma in_phone_class: "in_class phone_class c \<longleftrightarrow> is_digit c"
  by (auto simp: phone_class_def is_digit_def)

lemma digit_not_name: "is_digit c \<Longrightarrow> \<not> (is_letter c \<or> c = CHR '' '')"
  unfolding is_digit_def is_letter_def
  by (auto simp: less_eq_char_def)

lemma letter_not_digit: "is_letter c \<Longrightarrow> \<not> is_digit c"
  unfolding is_letter_def is_digit_def
  by (auto simp: less_eq_char_def)

lemma isCheckoutValid_iff:
  "isCheckoutValid st \<longleftrightarrow>
     (name (customer st) \<noteq> [] \<and> (\<forall>c\<in>set (name (customer st)). is_letter c \<or> c = CHR '' '')) \<and>
     (phone (customer st) \<noteq> [] \<and> (\<forall>c\<in>set (phone (customer st)). is_digit c)) \<and>
     cart st \<noteq> []"
  by (auto simp: isCheckoutValid_def regex_test_iff in_name_class in_phone_class)

text \<open>
  Claim C8. \<open>isCheckoutValid\<close> holds exactly when the name is a non-empty string of letters
  and spaces, the phone a non-empty string of digits, and the cart is not empty. It fails
  for an empty cart, for a name with a digit and for a phone with a letter, and it holds
  for Jane Doe, 5551234 and a non-empty cart. When it fails, \<open>checkout\<close> returns at
  once: no request, no message, the state unchanged.
\<close>

theorem isCheckoutValid_spec:
  "(isCheckoutValid st \<longleftrightarrow>
     (name (customer st) \<noteq> [] \<and> (\<forall>c\<in>set (name (customer st)). is_letter c \<or> c = CHR '' '')) \<and>
     (phone (customer st) \<noteq> [] \<and> (\<forall>c\<in>set (phone (customer st)). is_digit c)) \<and>
     cart st \<noteq> []) \<and>
   (cart st = [] \<longrightarrow> \<not> isCheckoutValid st) \<and>
   ((\<exists>c\<in>set (name (customer st)). is_digit c) \<longrightarrow> \<not> isCheckoutValid st) \<and>
   ((\<exists>c\<in>set (phone (customer st)). is_letter c) \<longrightarrow> \<not> isCheckoutValid st) \<and>
   (name (customer st) = ''Jane Doe'' \<and> phone (customer st) = ''5551234'' \<and> cart st \<noteq> [] \<longrightarrow>
      isCheckoutValid st) \<and>
   (\<not> isCheckoutValid st \<longrightarrow> checkout st rs = (Skipped, st, []))"
proof (intro conjI impI)
  show "isCheckoutValid st \<longleftrightarrow>
     (name (customer st) \<noteq> [] \<and> (\<forall>c\<in>set (name (customer st)). is_letter c \<or> c = CHR '' '')) \<and>
     (phone (customer st) \<noteq> [] \<and> (\<forall>c\<in>set (phone (customer st)). is_digit c)) \<and>
     cart st \<noteq> []"
    by (rule isCheckoutValid_iff)
next
  assume "cart st = []"
  then show "\<not> isCheckoutValid st"
    by (simp add: isCheckoutValid_iff)
next
  assume "\<exists>c\<in>set (name (customer st)). is_digit c"
  then show "\<not> isCheckoutValid st"
    unfolding isCheckoutValid_iff using digit_not_name by blast
next
  assume "\<exists>c\<in>set (phone (customer st)). is_letter c"
  then show "\<not> isCheckoutValid st"
    unfolding isCheckoutValid_iff using letter_not_digit by blast
next
  assume "name (customer st) = ''Jane Doe'' \<and> phone (customer st) = ''5551234'' \<and> cart st \<noteq> []"
  then show "isCheckoutValid st"
    by (simp add: isCheckoutValid_def name_class_def phone_class_def)
next
  assume "\<not> isCheckoutValid st"
  then show "checkout st rs = (Skipped, st, [])"
    by (simp add: checkout_def)
qed

theorem isCheckoutValid_spec_witness:
  "(name (customer seatState) = ''Jane Doe'' \<and> phone (customer seatState) = ''5551234'' \<and>
      cart seatState \<noteq> []) \<and> isCheckoutValid seatState \<and>
   cart janeNoCart = [] \<and> \<not> isCheckoutValid janeNoCart \<and>
   checkout janeNoCart [Rejected] = (Skipped, janeNoCart, []) \<and>
   (\<exists>c\<in>set (name (customer digitName)). is_digit c) \<and> \<not> isCheckoutValid digitName \<and>
   (\<exists>c\<in>set (phone (customer letterPhone)). is_letter c) \<and> \<not> isCheckoutValid letterPhone"
proof -
  have d: "\<exists>c\<in>set (name (customer digitName)). is_digit c"
    by (simp add: digitName_def is_digit_def)
  have l: "\<exists>c\<in>set (phone (customer letterPhone)). is_letter c"
    by (simp add: letterPhone_def is_letter_def)
  have j: "name (customer seatState) = ''Jane Doe'' \<and> phone (customer seatState) = ''5551234'' \<and>
      cart seatState \<noteq> []"
    by (simp add: seatState_def initialState_def)
  have e: "cart janeNoCart = []"
    by (simp add: janeNoCart_def)
  have v: "isCheckoutValid seatState"
    using j isCheckoutValid_spec [of seatState "[]", THEN conjunct2, THEN conjunct2,
        THEN conjunct2, THEN conjunct2, THEN conjunct1]
    by (rule rev_mp)
  have n: "\<not> isCheckoutValid janeNoCart"
    using e isCheckoutValid_spec [of janeNoCart "[Rejected]", THEN conjunct2, THEN conjunct1]
    by (rule rev_mp)
  have s: "checkout janeNoCart [Rejected] = (Skipped, janeNoCart, [])"
    using n isCheckoutValid_spec [of janeNoCart "[Rejected]", THEN conjunct2, THEN conjunct2,
        THEN conjunct2, THEN conjunct2, THEN conjunct2]
    by (rule rev_mp)
  have nd: "\<not> isCheckoutValid digitName"
    using d isCheckoutValid_spec [of digitName "[]", THEN conjunct2, THEN conjunct2, THEN conjunct1]
    by (rule rev_mp)
  have nl: "\<not> isCheckoutValid letterPhone"
    using l isCheckoutValid_spec [of letterPhone "[]", THEN conjunct2, THEN conjunct2,
        THEN conjunct2, THEN conjunct1]
    by (rule rev_mp)
  show ?thesis
    by (intro conjI j[THEN conjunct1] j[THEN conjunct2, THEN conjunct1]
        j[THEN conjunct2, THEN conjunct2] v e n s d nd l nl)
qed

section \<open>Loading the catalog\<close>

text \<open>
  Claim C9. When the request of \<open>loadLessons\<close> is rejected, answered with a status that is
  not a success, or answered with a body that does not parse, the state and with it the
  catalog stay as they were, the alert is raised, and the one \<open>GET\<close> is the only request.
\<close>

theorem loadLessons_failure:
  "r = Rejected \<or> r = Response False d \<or> r = Response True None \<longrightarrow>
     (case loadLessons st (r # rs) of (out, st', es) \<Rightarrow>
        out = Failed \<and> st' = st \<and> Alert ''Could not load lessons.'' \<in> set es \<and>
        filter is_fetch es = [Fetch ''GET'' (apiBase st @ ''/lessons'') None])"
  by (auto simp: loadLessons_def Let_def is_fetch_def)

theorem loadLessons_failure_witness:
  "loadLessons seatState [Response False None] =
     (Failed, seatState, [Fetch ''GET'' ''https://educate-app-backend.onrender.com/api/lessons'' None,
        ConsoleError ''Could not load lessons:'', Alert ''Could not load lessons.''])"
  using loadLessons_failure [of "Response False None" None seatState "[]"]
  by (simp add: loadLessons_def Let_def seatState_def initialState_def)

section \<open>Removing a seat\<close>

lemma findIndex_None: "findIndex p xs = None \<longleftrightarrow> (\<forall>x\<in>set xs. \<not> p x)"
  by (induction xs) auto

lemma findIndex_first:
  "j < length xs \<Longrightarrow> p (xs ! j) \<Longrightarrow> (\<forall>k<j. \<not> p (xs ! k)) \<Longrightarrow> findIndex p xs = Some j"
proof (induction xs arbitrary: j)
  case Nil
  then show ?case by simp
next
  case (Cons x xs)
  show ?case
  proof (cases j)
    case 0
    with Cons.prems show ?thesis by simp
  next
    case (Suc j')
    with Cons.prems have "\<not> p x" by auto
    moreover have "findIndex p xs = Some j'"
      using Cons.prems Suc by (intro Cons.IH) auto
    ultimately show ?thesis using Suc by simp
  qed
qed




lemma removeOne_inside:
  "0 \<le> index \<Longrightarrow> index < int (length (cart st)) \<Longrightarrow>
   removeOne st index (Some it) =
     (Normal, st\<lparr>cart := take (nat index) (cart st) @ drop (Suc (nat index)) (cart st),
        lessons := (case findIndex (sameKey it) (lessons st) of
           None \<Rightarrow> lessons st
         | Some j \<Rightarrow> (lessons st)[j := (lessons st ! j)\<lparr>spaces := js_add1 (spaces (lessons st ! j))\<rparr>])\<rparr>)"
  by (auto simp: removeOne_def Let_def split: option.splits)



text \<open>
  Claim C10. The lesson that gets the space is looked up with the argument \<open>item\<close>, not
  with the cart entry at the index: for an index of the cart and any item, the cart loses
  its entry at the index, and the space goes to the first lesson with the subject and
  location of the argument. In \<open>seatState\<close> removing the Math entry with the Art item
  gives the seat to the Art lesson.
\<close>

theorem removeOne_keyed_by_item:
  "(0 \<le> index \<and> index < int (length (cart st)) \<longrightarrow>
     (\<exists>st'. removeOne st index (Some it) = (Normal, st') \<and>
        cart st' = take (nat index) (cart st) @ drop (Suc (nat index)) (cart st) \<and>
        ((\<forall>l\<in>set (lessons st). \<not> sameKey it l) \<longrightarrow> lessons st' = lessons st) \<and>
        (\<forall>j. j < length (lessons st) \<and> sameKey it (lessons st ! j) \<and>
              (\<forall>k<j. \<not> sameKey it (lessons st ! k)) \<longrightarrow>
           lessons st' =
             (lessons st)[j := (lessons st ! j)\<lparr>spaces := js_add1 (spaces (lessons st ! j))\<rparr>]))) \<and>
   removeOne seatState 0 (Some artItem) =
     (Normal, seatState\<lparr>cart := [], lessons := [mathLesson\<lparr>spaces := Num 1\<rparr>, artLesson\<lparr>spaces := Num 1\<rparr>]\<rparr>)"
proof (intro conjI impI)
  assume a: "0 \<le> index \<and> index < int (length (cart st))"
  let ?st' = "st\<lparr>cart := take (nat index) (cart st) @ drop (Suc (nat index)) (cart st),
        lessons := (case findIndex (sameKey it) (lessons st) of
           None \<Rightarrow> lessons st
         | Some j \<Rightarrow> (lessons st)[j := (lessons st ! j)\<lparr>spaces := js_add1 (spaces (lessons st ! j))\<rparr>])\<rparr>"
  have r: "removeOne st index (Some it) = (Normal, ?st')"
    using a by (simp add: removeOne_inside)
  have c: "cart ?st' = take (nat index) (cart st) @ drop (Suc (nat index)) (cart st)"
    by simp
  have n: "(\<forall>l\<in>set (lessons st). \<not> sameKey it l) \<longrightarrow> lessons ?st' = lessons st"
    using findIndex_None [of "sameKey it" "lessons st"] by auto
  have f: "\<forall>j. j < length (lessons st) \<and> sameKey it (lessons st ! j) \<and>
              (\<forall>k<j. \<not> sameKey it (lessons st ! k)) \<longrightarrow>
           lessons ?st' =
             (lessons st)[j := (lessons st ! j)\<lparr>spaces := js_add1 (spaces (lessons st ! j))\<rparr>]"
    using findIndex_first [of _ "lessons st" "sameKey it"] by auto
  show "\<exists>st'. removeOne st index (Some it) = (Normal, st') \<and>
        cart st' = take (nat index) (cart st) @ drop (Suc (nat index)) (cart st) \<and>
        ((\<forall>l\<in>set (lessons st). \<not> sameKey it l) \<longrightarrow> lessons st' = lessons st) \<and>
        (\<forall>j. j < length (lessons st) \<and> sameKey it (lessons st ! j) \<and>
              (\<forall>k<j. \<not> sameKey it (lessons st ! k)) \<longrightarrow>
           lessons st' =
             (lessons st)[j := (lessons st ! j)\<lparr>spaces := js_add1 (spaces (lessons st ! j))\<rparr>])"
    using r c n f by blast
next
  show "removeOne seatState 0 (Some artItem) =
     (Normal, seatState\<lparr>cart := [], lessons := [mathLesson\<lparr>spaces := Num 1\<rparr>, artLesson\<lparr>spaces := Num 1\<rparr>]\<rparr>)"
    by (simp add: removeOne_def seatState_def initialState_def mathLesson_def artLesson_def
        artItem_def mathItem_def sameKey_def Let_def)
qed

theorem removeOne_keyed_by_item_witness:
  "((0::int) \<le> 0 \<and> 0 < int (length (cart seatState))) \<and>
   (\<exists>st'. removeOne seatState 0 (Some artItem) = (Normal, st') \<and>
      cart st' = take (nat 0) (cart seatState) @ drop (Suc (nat 0)) (cart seatState) \<and>
      lessons st' = [mathLesson\<lparr>spaces := Num 1\<rparr>, artLesson\<lparr>spaces := Num 1\<rparr>])"
proof -
  have h: "(0::int) \<le> 0 \<and> 0 < int (length (cart seatState))"
    by (simp add: seatState_def)
  have m: "1 < length (lessons seatState) \<and> sameKey artItem (lessons seatState ! 1) \<and>
      (\<forall>k<1. \<not> sameKey artItem (lessons seatState ! k))"
    by (simp add: seatState_def sameKey_def artItem_def artLesson_def mathLesson_def)
  have u: "(lessons seatState)[1 := (lessons seatState ! 1)\<lparr>spaces := js_add1 (spaces (lessons seatState ! 1))\<rparr>]
      = [mathLesson\<lparr>spaces := Num 1\<rparr>, artLesson\<lparr>spaces := Num 1\<rparr>]"
    by (simp add: seatState_def artLesson_def)
  from removeOne_keyed_by_item [of 0 seatState artItem] h m
  obtain st' where "removeOne seatState 0 (Some artItem) = (Normal, st')"
    "cart st' = take (nat 0) (cart seatState) @ drop (Suc (nat 0)) (cart seatState)"
    "lessons st' = (lessons seatState)[1 := (lessons seatState ! 1)\<lparr>spaces := js_add1 (spaces (lessons seatState ! 1))\<rparr>]"
    by blast
  with h u show ?thesis by auto
qed



section \<open>Searching\<close>

text \<open>The loop keeps, in the order of the catalog, every lesson when the term is empty, and
  otherwise the lessons that pass the test.\<close>

lemma searchLoop_filter:
  "searchLoop tm ls acc = acc @ filter (\<lambda>l. tm = [] \<or> matchesTerm tm l) ls"
  by (induction ls arbitrary: acc) auto

lemma searchedLessons_filter:
  "searchedLessons st =
     filter (\<lambda>l. toLowerCase (searchQuery st) = [] \<or> matchesTerm (toLowerCase (searchQuery st)) l) (lessons st)"
  by (simp add: searchedLessons_def searchLoop_filter)

lemma searchedLessons_empty: "searchQuery st = [] \<Longrightarrow> searchedLessons st = lessons st"
  by (simp add: searchedLessons_filter toLowerCase_def)

text \<open>
  Claim C2. The search is to keep exactly the lessons of which the text of the subject,
  the location, the price or the spaces contains the term, whatever the case. The code
  writes \<^verbatim>\<open>String(lesson.spaces || "")\<close>, which turns the number 0 into the empty text:
  for the sold-out Art lesson the text of its spaces, \<^verbatim>\<open>0\<close>, contains the term \<^verbatim>\<open>0\<close>, and
  the search for \<^verbatim>\<open>0\<close> returns no lesson.
\<close>

theorem search_misses_zero_spaces:
  "spaces artLesson = Num 0 \<and>
   str_includes (toLowerCase (String_num (spaces artLesson))) (toLowerCase (searchQuery zeroQuery)) \<and>
   searchedLessons zeroQuery = []"
  by code_simp

section \<open>Sorting\<close>
















section \<open>Checkout\<close>

text \<open>
  Claim C1. Every failure of a backend call during checkout, a status that is no success
  included, is to end the checkout as failed, with the cart and the customer kept. The
  loop over the cart awaits each \<^verbatim>\<open>PUT\<close> and never reads \<^verbatim>\<open>res.ok\<close>: with the order
  accepted and the update of the Math lesson answered by a status that is no success, the
  checkout succeeds, raises no alert, and clears the cart and the form.
\<close>

theorem checkout_ignores_update_status:
  "isCheckoutValid seatState \<and>
   checkout seatState updateRefused =
     (Succeeded,
      seatState\<lparr>orderMessage := ''Order submitted!'', cart := [],
        customer := \<lparr>name = [], phone = []\<rparr>\<rparr>,
      [Fetch ''POST'' ''https://educate-app-backend.onrender.com/api/order''
         (Some (OrderBody ''Jane Doe'' ''5551234'' [mathItem] (Finite 20))),
       Fetch ''PUT'' ''https://educate-app-backend.onrender.com/api/lessons''
         (Some (SpacesBody (Some ''Math'') (Some ''Hall A'') (Num 1))),
       Fetch ''GET'' ''https://educate-app-backend.onrender.com/api/lessons'' None])"
  by (simp add: checkout_def isCheckoutValid_def name_class_def phone_class_def seatState_def
      initialState_def updateRefused_def mathLesson_def artLesson_def mathItem_def sameKey_def
      loadLessons_def cartTotal_def numberOr0_def fl_numeral Let_def)

text \<open>What does hold: no status of a response makes the loop or, after an accepted order,
  the checkout fail; a rejected call ends the loop with that request as its last; a failed
  order, and any failed checkout, leaves the state as it was and raises the alert.\<close>

lemma putLoop_status_blind:
  "Rejected \<notin> set rs \<Longrightarrow> fst (putLoop st items rs) \<noteq> Failed"
proof (induction items arbitrary: rs)
  case Nil
  then show ?case by simp
next
  case (Cons item items)
  show ?case
  proof (cases "findIndex (sameKey item) (lessons st)")
    case None
    with Cons show ?thesis by simp
  next
    case (Some j)
    show ?thesis
    proof (cases rs)
      case Nil
      with Some show ?thesis by (simp add: Let_def)
    next
      case (Cons r rs1)
      with Cons.prems obtain ok data where r: "r = Response ok data" and n: "Rejected \<notin> set rs1"
        by (cases r) auto
      from Cons.IH [OF n] Some Cons r show ?thesis
        by (auto simp: Let_def split: prod.splits)
    qed
  qed
qed

lemma checkout_status_blind:
  "Rejected \<notin> set rs \<Longrightarrow> fst (checkout st (Response True d # rs)) \<noteq> Failed"
  using putLoop_status_blind [of rs st "cart st"]
  by (auto simp: checkout_def Let_def split: prod.splits outcome.splits)

lemma checkout_order_failure:
  "isCheckoutValid st \<Longrightarrow> r = Rejected \<or> r = Response False d \<Longrightarrow>
   checkout st (r # rs) =
     (Failed, st,
      [Fetch ''POST'' (apiBase st @ ''/order'')
         (Some (OrderBody (name (customer st)) (phone (customer st)) (cart st) (cartTotal st))),
       ConsoleError ''Error submitting order:'',
       Alert ''There was a problem submitting your order.''])"
  by (auto simp: checkout_def Let_def)

lemma checkout_failed_unchanged:
  "checkout st rs = (Failed, st', es) \<Longrightarrow>
   st' = st \<and> Alert ''There was a problem submitting your order.'' \<in> set es"
  by (auto simp: checkout_def Let_def
      split: if_splits list.splits fetch_result.splits prod.splits outcome.splits)

lemma putLoop_rejected_aborts:
  "putLoop st items rs = (Failed, es, rs') \<Longrightarrow>
   (\<exists>pre. rs = pre @ Rejected # rs' \<and> Rejected \<notin> set pre \<and> length es = Suc (length pre))"
proof (induction items arbitrary: rs es)
  case Nil
  then show ?case by simp
next
  case (Cons item items)
  show ?case
  proof (cases "findIndex (sameKey item) (lessons st)")
    case None
    with Cons show ?thesis by simp
  next
    case (Some j)
    show ?thesis
    proof (cases rs)
      case Nil
      with Cons.prems Some show ?thesis by (simp add: Let_def)
    next
      case (Cons r rs1)
      show ?thesis
      proof (cases r)
        case Rejected
        with Cons.prems Some Cons show ?thesis by (auto simp: Let_def)
      next
        case (Response ok data)
        with Cons.prems Some Cons obtain es1 where
          p: "putLoop st items rs1 = (Failed, es1, rs')" and e: "length es = Suc (length es1)"
          by (auto simp: Let_def split: prod.splits)
        from Cons.IH [OF p] obtain pre where
          "rs1 = pre @ Rejected # rs'" "Rejected \<notin> set pre" "length es1 = Suc (length pre)"
          by blast
        with Cons Response e have "rs = (r # pre) @ Rejected # rs' \<and> Rejected \<notin> set (r # pre) \<and>
            length es = Suc (length (r # pre))"
          by simp
        then show ?thesis by blast
      qed
    qed
  qed
qed

end
